theory Spec2Isabelle
  imports Main "HOL-Library.Word"
begin

unbundle bit_operations_syntax

section \<open>The i8086 CPU of \<^verbatim>\<open>cpu.go\<close>\<close>

subsection \<open>Data model\<close>

type_synonym u8 = "8 word"
type_synonym u16 = "16 word"

text \<open>
  \<^verbatim>\<open>type CPU struct\<close>: fifteen 16-bit registers, \<^verbatim>\<open>Flag\<close>, \<^verbatim>\<open>programSize\<close> (a Go
  \<^verbatim>\<open>int\<close>) and \<^verbatim>\<open>Memory [1048576]byte\<close>. The array is a function from the index to the
  byte; an index is checked against \<open>MEMSIZE\<close> before every access (\<open>mem_index\<close> below),
  as Go's runtime does, so the function is never consulted at or beyond \<open>MEMSIZE\<close>.
\<close>

record CPU =
  PC :: u16
  SP :: u16
  AX :: u16
  BX :: u16
  CX :: u16
  DX :: u16
  SI :: u16
  DI :: u16
  BP :: u16
  CS :: u16
  DS :: u16
  ES :: u16
  SS :: u16
  IP :: u16
  FL :: u16
  Flag :: u16
  programSize :: int
  Memory :: "nat \<Rightarrow> u8"

definition MEMSIZE :: nat where
  "MEMSIZE = 1048576"

text \<open>\<^verbatim>\<open>func NewCPU() *CPU { return &CPU{} }\<close>: Go's zero value of the struct.\<close>

definition NewCPU :: CPU where
  "NewCPU = \<lparr>PC = 0, SP = 0, AX = 0, BX = 0, CX = 0, DX = 0, SI = 0, DI = 0, BP = 0,
     CS = 0, DS = 0, ES = 0, SS = 0, IP = 0, FL = 0, Flag = 0, programSize = 0,
     Memory = (\<lambda>_. 0)\<rparr>"

text \<open>
  A Go run-time panic and the two ways a function of the program ends: it returns a
  value, or it panics. Both carry the state of the \<^verbatim>\<open>*CPU\<close> receiver at that moment,
  since it is mutated in place.
\<close>

datatype panic = IndexOutOfRange nat

datatype 'a outcome = Return 'a CPU | Panic panic CPU

text \<open>
  Go's \<^verbatim>\<open>error\<close> values of this program: the \<^verbatim>\<open>fmt.Errorf("invalid opcode: %d", opcode)\<close>
  of \<^verbatim>\<open>calcLen\<close>, and the errors of \<^verbatim>\<open>os.Open\<close> and \<^verbatim>\<open>io.ReadAll\<close>. A \<^verbatim>\<open>nil\<close> error is
  \<open>None\<close>.
\<close>

datatype error = InvalidOpcode u8 | OpenError string | ReadError string

subsection \<open>8-bit sub-registers\<close>

text \<open>\<^verbatim>\<open>uint8(c.AX & 0xFF)\<close> and \<^verbatim>\<open>uint8(c.AX >> 8)\<close>; the conversion truncates.\<close>

definition getAL :: "CPU \<Rightarrow> u8" where
  "getAL c = ucast (AX c AND 0xFF)"

definition getAH :: "CPU \<Rightarrow> u8" where
  "getAH c = ucast (drop_bit 8 (AX c))"

definition getBL :: "CPU \<Rightarrow> u8" where
  "getBL c = ucast (BX c AND 0xFF)"

definition getBH :: "CPU \<Rightarrow> u8" where
  "getBH c = ucast (drop_bit 8 (BX c))"

definition getCL :: "CPU \<Rightarrow> u8" where
  "getCL c = ucast (CX c AND 0xFF)"

definition getCH :: "CPU \<Rightarrow> u8" where
  "getCH c = ucast (drop_bit 8 (CX c))"

definition getDL :: "CPU \<Rightarrow> u8" where
  "getDL c = ucast (DX c AND 0xFF)"

definition getDH :: "CPU \<Rightarrow> u8" where
  "getDH c = ucast (drop_bit 8 (DX c))"

text \<open>
  \<^verbatim>\<open>c.AX = (c.AX & 0xFF00) | uint16(v)\<close> and
  \<^verbatim>\<open>c.AX = (c.AX & 0x00FF) | (uint16(v) << 8)\<close>; the setters mutate the receiver, so
  the model returns the new state.
\<close>

definition setAL :: "CPU \<Rightarrow> u8 \<Rightarrow> CPU" where
  "setAL c v = c\<lparr>AX := (AX c AND 0xFF00) OR ucast v\<rparr>"

definition setAH :: "CPU \<Rightarrow> u8 \<Rightarrow> CPU" where
  "setAH c v = c\<lparr>AX := (AX c AND 0x00FF) OR push_bit 8 (ucast v)\<rparr>"

definition setBL :: "CPU \<Rightarrow> u8 \<Rightarrow> CPU" where
  "setBL c v = c\<lparr>BX := (BX c AND 0xFF00) OR ucast v\<rparr>"

definition setBH :: "CPU \<Rightarrow> u8 \<Rightarrow> CPU" where
  "setBH c v = c\<lparr>BX := (BX c AND 0x00FF) OR push_bit 8 (ucast v)\<rparr>"

definition setCL :: "CPU \<Rightarrow> u8 \<Rightarrow> CPU" where
  "setCL c v = c\<lparr>CX := (CX c AND 0xFF00) OR ucast v\<rparr>"

definition setCH :: "CPU \<Rightarrow> u8 \<Rightarrow> CPU" where
  "setCH c v = c\<lparr>CX := (CX c AND 0x00FF) OR push_bit 8 (ucast v)\<rparr>"

definition setDL :: "CPU \<Rightarrow> u8 \<Rightarrow> CPU" where
  "setDL c v = c\<lparr>DX := (DX c AND 0xFF00) OR ucast v\<rparr>"

definition setDH :: "CPU \<Rightarrow> u8 \<Rightarrow> CPU" where
  "setDH c v = c\<lparr>DX := (DX c AND 0x00FF) OR push_bit 8 (ucast v)\<rparr>"

subsection \<open>The opcode table and \<^verbatim>\<open>calcLen\<close>\<close>

text \<open>
  \<^verbatim>\<open>mnemonics = map[uint8]string{0b100010: "MOV"}\<close>; \<open>0b100010\<close> is 34. Indexing a Go map
  with an absent key gives the zero value, here the empty string.
\<close>

definition mnemonics :: "u8 \<rightharpoonup> string" where
  "mnemonics = [34 \<mapsto> ''MOV'']"

definition mnemonics_index :: "u8 \<Rightarrow> string" where
  "mnemonics_index opcode = (case mnemonics opcode of None \<Rightarrow> [] | Some s \<Rightarrow> s)"

text \<open>
  \<^verbatim>\<open>func (c *CPU) calcLen(opcode, d, w, mod, rm uint8) (uint8, error)\<close>. The receiver and
  the parameters \<^verbatim>\<open>d\<close>, \<^verbatim>\<open>mod\<close> and \<^verbatim>\<open>rm\<close> are not used by the body.
\<close>

definition calcLen :: "CPU \<Rightarrow> u8 \<Rightarrow> u8 \<Rightarrow> u8 \<Rightarrow> u8 \<Rightarrow> u8 \<Rightarrow> u8 \<times> error option" where
  "calcLen c opcode d w mode rm =
     (if opcode = 34
      then (let len = 1; len = (if w = 1 then 2 else len) in (len, None))
      else (0, Some (InvalidOpcode opcode)))"

subsection \<open>\<^verbatim>\<open>DecodeInatruction\<close>\<close>

text \<open>\<^verbatim>\<open>type Instruction struct {}\<close>: the struct has no field, so it has one value.\<close>

datatype Instruction = Instruction

text \<open>
  The two \<^verbatim>\<open>fmt.Printf\<close> calls of the decoder, with their arguments: the mnemonic, and
  \<^verbatim>\<open>opcode, d, w, mod, reg, rm\<close> in this order.
\<close>

datatype printf = Printf_mnemonic string | Printf_fields u8 u8 u8 u8 u8 u8

text \<open>\<^verbatim>\<open>c.Memory[i]\<close>: Go panics when the index is not below the array's length.\<close>

definition mem_index :: "(nat \<Rightarrow> u8) \<Rightarrow> nat \<Rightarrow> panic + u8" where
  "mem_index m i = (if i < MEMSIZE then Inr (m i) else Inl (IndexOutOfRange i))"

text \<open>
  \<^verbatim>\<open>func (c *CPU) DecodeInatruction() (Instruction, error)\<close>. \<^verbatim>\<open>c.PC++\<close> is on
  \<^verbatim>\<open>uint16\<close> and wraps. The result holds what was printed, the returned
  \<^verbatim>\<open>Instruction{}\<close> and the returned error (always \<^verbatim>\<open>nil\<close>).
\<close>

definition DecodeInatruction :: "CPU \<Rightarrow> (printf list \<times> Instruction \<times> error option) outcome" where
  "DecodeInatruction c =
     (case mem_index (Memory c) (unat (PC c)) of
        Inl p \<Rightarrow> Panic p c
      | Inr memory \<Rightarrow>
          let c1 = c\<lparr>PC := PC c + 1\<rparr>;
              opcode = drop_bit 2 (memory AND 0xFC);
              d = drop_bit 1 (memory AND 0x2);
              w = memory AND 0x1
          in (case mem_index (Memory c1) (unat (PC c1)) of
                Inl p \<Rightarrow> Panic p c1
              | Inr memory2 \<Rightarrow>
                  let c2 = c1\<lparr>PC := PC c1 + 1\<rparr>;
                      mode = drop_bit 6 (memory2 AND 0xC0);
                      reg = drop_bit 3 (memory2 AND 0x38);
                      rm = memory2 AND 0x07
                  in Return ([Printf_mnemonic (mnemonics_index opcode),
                              Printf_fields opcode d w mode reg rm],
                             Instruction, None) c2))"

subsection \<open>\<^verbatim>\<open>LoadProgram\<close>\<close>

text \<open>
  What \<^verbatim>\<open>os.Open\<close> followed by \<^verbatim>\<open>io.ReadAll\<close> gives for a file name: one of the two
  calls fails, or the bytes of the file. The file system is a parameter of the model.
\<close>

datatype file_contents = OpenFails string | ReadFails string | Contents "u8 list"

text \<open>
  \<^verbatim>\<open>for ; i < len(b); i++ { c.Memory[i] = b[i] }\<close>. The store is bounds-checked by Go:
  at \<open>i = MEMSIZE\<close> it panics, with the earlier stores done. The loop returns the final
  \<open>i\<close> with the state.
\<close>

function load_loop :: "u8 list \<Rightarrow> nat \<Rightarrow> CPU \<Rightarrow> (panic \<times> CPU) + (nat \<times> CPU)" where
  "load_loop b i c =
     (if i < length b
      then (if i < MEMSIZE
            then load_loop b (i + 1) (c\<lparr>Memory := (Memory c)(i := b ! i)\<rparr>)
            else Inl (IndexOutOfRange i, c))
      else Inr (i, c))"
  by pat_completeness auto
termination
  by (relation "measure (\<lambda>(b, i, c). length b - i)") auto

declare load_loop.simps [simp del]

definition LoadProgram :: "(string \<Rightarrow> file_contents) \<Rightarrow> CPU \<Rightarrow> string \<Rightarrow> error option outcome" where
  "LoadProgram fs c filename =
     (case fs filename of
        OpenFails e \<Rightarrow> Return (Some (OpenError e)) c
      | ReadFails e \<Rightarrow> Return (Some (ReadError e)) c
      | Contents b \<Rightarrow>
          (case load_loop b 0 c of
             Inl (p, c') \<Rightarrow> Panic p c'
           | Inr (i, c') \<Rightarrow> Return None (c'\<lparr>programSize := int i\<rparr>)))"

subsection \<open>\<^verbatim>\<open>Run\<close>\<close>

text \<open>
  \<^verbatim>\<open>for { }\<close> followed by \<^verbatim>\<open>return nil\<close>: the body of the loop is empty (its only line is
  a comment), so an iteration leaves the state as it is and starts the next one. \<open>None\<close>
  is "does not return"; a return would be \<open>Some\<close> of the error and the state.
\<close>

partial_function (option) Run :: "CPU \<Rightarrow> (error option \<times> CPU) option" where
  "Run c = Run c"

subsection \<open>The length rule in the words of the specification\<close>

text \<open>
  The displacement bytes of the MOD/R-M rule: none in register mode (11) and in mode 00,
  except two for selector 110 in mode 00; one in mode 01; two in mode 10.
\<close>

definition spec_disp_bytes :: "u8 \<Rightarrow> u8 \<Rightarrow> nat" where
  "spec_disp_bytes mode rm =
     (if mode = 0 then (if rm = 6 then 2 else 0)
      else if mode = 1 then 1
      else if mode = 2 then 2
      else 0)"

text \<open>
  "Base 2 bytes, plus displacement bytes per the MOD/R-M rule, plus any immediate bytes
  the mnemonic requires, plus one extra byte if width bit selects word-size immediate";
  \<open>imm\<close> is the number of immediate bytes the mnemonic requires.
\<close>

definition spec_instruction_length :: "u8 \<Rightarrow> u8 \<Rightarrow> u8 \<Rightarrow> nat \<Rightarrow> nat" where
  "spec_instruction_length w mode rm imm =
     2 + spec_disp_bytes mode rm + imm + (if 0 < imm \<and> w = 1 then 1 else 0)"

subsection \<open>Bit fields and example states\<close>

text \<open>The \<open>n\<close>-bit field of a byte whose lowest bit is bit \<open>lo\<close>.\<close>

definition bit_field :: "u8 \<Rightarrow> nat \<Rightarrow> nat \<Rightarrow> u8" where
  "bit_field x lo n = take_bit n (drop_bit lo x)"

text \<open>
  The zero CPU with the bytes \<open>88 06 34 12\<close> at address 0: opcode-class \<open>100010\<close>,
  \<open>d = 0\<close>, \<open>w = 0\<close>, then mode \<open>00\<close>, register \<open>000\<close>, register/memory \<open>110\<close>, then the two
  bytes of a 16-bit displacement.
\<close>

definition direct_address_cpu :: CPU where
  "direct_address_cpu =
     NewCPU\<lparr>Memory := (Memory NewCPU)(0 := 0x88, 1 := 0x06, 2 := 0x34, 3 := 0x12)\<rparr>"

text \<open>The zero CPU after loading the two bytes \<open>88 C3\<close> (a register-to-register move).\<close>

definition mov_loaded_cpu :: CPU where
  "mov_loaded_cpu = NewCPU\<lparr>Memory := (Memory NewCPU)(0 := 0x88, 1 := 0xC3), programSize := 2\<rparr>"

text \<open>A file of \<open>MEMSIZE + 1\<close> bytes, each \<open>01\<close>.\<close>

definition oversized_image :: "u8 list" where
  "oversized_image = replicate (MEMSIZE + 1) 1"

section \<open>Properties\<close>

subsection \<open>Words and bytes\<close>

lemma mask_FF: "(0xFF :: u16) = mask 8"
  by (simp add: mask_eq_exp_minus_1)

lemma mask_FF00: "(0xFF00 :: u16) = NOT (mask 8)"
  by (simp add: mask_eq_exp_minus_1)

lemma low_byte: "(ucast (x AND 0xFF) :: u8) = ucast x" for x :: u16
  unfolding mask_FF by (rule bit_word_eqI) (auto simp: bit_simps)

lemma high_byte_and: "drop_bit 8 x AND 0xFF = drop_bit 8 x" for x :: u16
  unfolding mask_FF by (rule bit_word_eqI) (auto simp: bit_simps dest: bit_imp_le_length)

lemma unat_low_byte: "unat (ucast x :: u8) = unat x mod 256" for x :: u16
  by (simp add: unsigned_ucast_eq take_bit_eq_mod unsigned_take_bit_eq)

lemma unat_high_byte: "unat (ucast (drop_bit 8 x) :: u8) = unat x div 256" for x :: u16
proof -
  have "unat x < 65536"
    using unsigned_less [of x, where 'a = nat] by simp
  then have "unat x div 256 < 256"
    by simp
  moreover have "unat (drop_bit 8 x) = unat x div 256"
    by (simp add: unat_drop_bit_eq drop_bit_eq_div unat_div)
  ultimately show ?thesis
    by (simp add: unsigned_ucast_eq take_bit_eq_mod unsigned_take_bit_eq)
qed

lemma set_low_low: "(ucast (((x AND 0xFF00) OR ucast v) AND 0xFF) :: u8) = v"
  for x :: u16 and v :: u8
  unfolding mask_FF mask_FF00 by (rule bit_word_eqI) (auto simp: bit_simps)

lemma set_low_high: "(ucast (drop_bit 8 ((x AND 0xFF00) OR ucast v)) :: u8) = ucast (drop_bit 8 x)"
  for x :: u16 and v :: u8
  unfolding mask_FF00 by (rule bit_word_eqI) (auto simp: bit_simps dest: bit_imp_le_length)

lemma set_high_high: "(ucast (drop_bit 8 ((x AND 0x00FF) OR push_bit 8 (ucast v))) :: u8) = v"
  for x :: u16 and v :: u8
  unfolding mask_FF by (rule bit_word_eqI) (auto simp: bit_simps)

lemma set_high_low:
  "(ucast (((x AND 0x00FF) OR push_bit 8 (ucast v)) AND 0xFF) :: u8) = ucast (x AND 0xFF)"
  for x :: u16 and v :: u8
  unfolding mask_FF by (rule bit_word_eqI) (auto simp: bit_simps)

lemma set_low_then_high:
  "((((x AND 0xFF00) OR ucast (ucast (v AND 0xFF) :: u8)) AND 0x00FF)
      OR push_bit 8 (ucast (ucast (drop_bit 8 v) :: u8))) = v"
  for x v :: u16
  unfolding mask_FF mask_FF00
proof (rule bit_word_eqI)
  fix n
  assume "n < LENGTH(16)"
  then show "bit (((x AND NOT (mask 8)) OR ucast (ucast (v AND mask 8) :: u8)) AND mask 8
                OR push_bit 8 (ucast (ucast (drop_bit 8 v) :: u8))) n = bit v n"
    by (cases "n < 8") (auto simp: bit_simps not_less dest: bit_imp_le_length)
qed

lemma set_low_then_high_cat:
  "((((x AND 0xFF00) OR ucast lo) AND 0x00FF) OR push_bit 8 (ucast hi)) = word_cat hi lo"
  for x :: u16 and lo hi :: u8
  unfolding mask_FF mask_FF00
proof (rule bit_word_eqI)
  fix n
  assume "n < LENGTH(16)"
  then show "bit (((x AND NOT (mask 8)) OR ucast lo) AND mask 8 OR push_bit 8 (ucast hi)) n
             = bit (word_cat hi lo :: u16) n"
    by (cases "n < 8") (auto simp: bit_simps not_less dest: bit_imp_le_length)
qed

lemma unat_word_cat_bytes: "unat (word_cat hi lo :: u16) = 256 * unat hi + unat lo"
  for lo hi :: u8
proof -
  have hi: "unat hi < 256" and lo: "unat lo < 256"
    using unsigned_less [of hi, where 'a = nat] unsigned_less [of lo, where 'a = nat]
    by simp_all
  have "unat (push_bit 8 (ucast hi :: u16)) = 256 * unat hi"
    using hi by (simp add: push_bit_eq_mult unat_word_ariths unsigned_ucast_eq take_bit_eq_mod)
  moreover have "unat (ucast lo :: u16) = unat lo"
    using lo by (simp add: unsigned_ucast_eq take_bit_eq_mod)
  ultimately show ?thesis
    using hi lo by (simp add: word_cat_eq unat_word_ariths)
qed

lemma get_after_write:
  "ucast (v AND 0xFF) = (ucast v :: u8)"
  "ucast (drop_bit 8 v) = (ucast (drop_bit 8 v AND 0xFF) :: u8)"
  "unat (ucast (v AND 0xFF) :: u8) = unat v mod 256"
  "unat (ucast (drop_bit 8 v) :: u8) = unat v div 256"
  for v :: u16
proof -
  show "ucast (v AND 0xFF) = (ucast v :: u8)"
    by (rule low_byte)
  show "ucast (drop_bit 8 v) = (ucast (drop_bit 8 v AND 0xFF) :: u8)"
    by (simp only: high_byte_and)
  show "unat (ucast (v AND 0xFF) :: u8) = unat v mod 256"
    by (simp only: low_byte unat_low_byte)
  show "unat (ucast (drop_bit 8 v) :: u8) = unat v div 256"
    by (rule unat_high_byte)
qed

subsection \<open>The register fields under the setters\<close>

lemmas get_defs = getAL_def getAH_def getBL_def getBH_def getCL_def getCH_def getDL_def getDH_def

lemma sel_upd:
  "AX (c\<lparr>AX := v\<rparr>) = v" "BX (c\<lparr>BX := v\<rparr>) = v" "CX (c\<lparr>CX := v\<rparr>) = v" "DX (c\<lparr>DX := v\<rparr>) = v"
  by simp_all

lemma reg_setL:
  "AX (setAL c v) = (AX c AND 0xFF00) OR ucast v"
  "BX (setBL c v) = (BX c AND 0xFF00) OR ucast v"
  "CX (setCL c v) = (CX c AND 0xFF00) OR ucast v"
  "DX (setDL c v) = (DX c AND 0xFF00) OR ucast v"
  by (simp_all add: setAL_def setBL_def setCL_def setDL_def)

lemma reg_setH:
  "AX (setAH c v) = (AX c AND 0x00FF) OR push_bit 8 (ucast v)"
  "BX (setBH c v) = (BX c AND 0x00FF) OR push_bit 8 (ucast v)"
  "CX (setCH c v) = (CX c AND 0x00FF) OR push_bit 8 (ucast v)"
  "DX (setDH c v) = (DX c AND 0x00FF) OR push_bit 8 (ucast v)"
  by (simp_all add: setAH_def setBH_def setCH_def setDH_def)

lemma frame_set:
  "setAL c v = c\<lparr>AX := AX (setAL c v)\<rparr>" "setAH c v = c\<lparr>AX := AX (setAH c v)\<rparr>"
  "setBL c v = c\<lparr>BX := BX (setBL c v)\<rparr>" "setBH c v = c\<lparr>BX := BX (setBH c v)\<rparr>"
  "setCL c v = c\<lparr>CX := CX (setCL c v)\<rparr>" "setCH c v = c\<lparr>CX := CX (setCH c v)\<rparr>"
  "setDL c v = c\<lparr>DX := DX (setDL c v)\<rparr>" "setDH c v = c\<lparr>DX := DX (setDH c v)\<rparr>"
  by (simp_all add: setAL_def setAH_def setBL_def setBH_def setCL_def setCH_def setDL_def setDH_def)

subsection \<open>Sub-register aliasing and the frame of the setters\<close>

lemma AX_aliasing:
  "getAL (c\<lparr>AX := v\<rparr>) = ucast (v AND 0xFF) \<and>
   getAH (c\<lparr>AX := v\<rparr>) = ucast (drop_bit 8 v AND 0xFF) \<and>
   unat (getAL (c\<lparr>AX := v\<rparr>)) = unat v mod 256 \<and>
   unat (getAH (c\<lparr>AX := v\<rparr>)) = unat v div 256 \<and>
   AX (setAH (setAL c' (getAL (c\<lparr>AX := v\<rparr>))) (getAH (c\<lparr>AX := v\<rparr>))) = v \<and>
   unat (AX (setAH (setAL c' lo) hi)) = 256 * unat hi + unat lo"
proof (intro conjI)
  show "getAL (c\<lparr>AX := v\<rparr>) = ucast (v AND 0xFF)"
    unfolding get_defs sel_upd ..
  show "getAH (c\<lparr>AX := v\<rparr>) = ucast (drop_bit 8 v AND 0xFF)"
    unfolding get_defs sel_upd by (rule get_after_write)
  show "unat (getAL (c\<lparr>AX := v\<rparr>)) = unat v mod 256"
    unfolding get_defs sel_upd by (rule get_after_write)
  show "unat (getAH (c\<lparr>AX := v\<rparr>)) = unat v div 256"
    unfolding get_defs sel_upd by (rule get_after_write)
  show "AX (setAH (setAL c' (getAL (c\<lparr>AX := v\<rparr>))) (getAH (c\<lparr>AX := v\<rparr>))) = v"
    unfolding get_defs sel_upd reg_setH reg_setL by (rule set_low_then_high)
  show "unat (AX (setAH (setAL c' lo) hi)) = 256 * unat hi + unat lo"
    unfolding reg_setH reg_setL set_low_then_high_cat by (rule unat_word_cat_bytes)
qed

lemma BX_aliasing:
  "getBL (c\<lparr>BX := v\<rparr>) = ucast (v AND 0xFF) \<and>
   getBH (c\<lparr>BX := v\<rparr>) = ucast (drop_bit 8 v AND 0xFF) \<and>
   unat (getBL (c\<lparr>BX := v\<rparr>)) = unat v mod 256 \<and>
   unat (getBH (c\<lparr>BX := v\<rparr>)) = unat v div 256 \<and>
   BX (setBH (setBL c' (getBL (c\<lparr>BX := v\<rparr>))) (getBH (c\<lparr>BX := v\<rparr>))) = v \<and>
   unat (BX (setBH (setBL c' lo) hi)) = 256 * unat hi + unat lo"
proof (intro conjI)
  show "getBL (c\<lparr>BX := v\<rparr>) = ucast (v AND 0xFF)"
    unfolding get_defs sel_upd ..
  show "getBH (c\<lparr>BX := v\<rparr>) = ucast (drop_bit 8 v AND 0xFF)"
    unfolding get_defs sel_upd by (rule get_after_write)
  show "unat (getBL (c\<lparr>BX := v\<rparr>)) = unat v mod 256"
    unfolding get_defs sel_upd by (rule get_after_write)
  show "unat (getBH (c\<lparr>BX := v\<rparr>)) = unat v div 256"
    unfolding get_defs sel_upd by (rule get_after_write)
  show "BX (setBH (setBL c' (getBL (c\<lparr>BX := v\<rparr>))) (getBH (c\<lparr>BX := v\<rparr>))) = v"
    unfolding get_defs sel_upd reg_setH reg_setL by (rule set_low_then_high)
  show "unat (BX (setBH (setBL c' lo) hi)) = 256 * unat hi + unat lo"
    unfolding reg_setH reg_setL set_low_then_high_cat by (rule unat_word_cat_bytes)
qed

lemma CX_aliasing:
  "getCL (c\<lparr>CX := v\<rparr>) = ucast (v AND 0xFF) \<and>
   getCH (c\<lparr>CX := v\<rparr>) = ucast (drop_bit 8 v AND 0xFF) \<and>
   unat (getCL (c\<lparr>CX := v\<rparr>)) = unat v mod 256 \<and>
   unat (getCH (c\<lparr>CX := v\<rparr>)) = unat v div 256 \<and>
   CX (setCH (setCL c' (getCL (c\<lparr>CX := v\<rparr>))) (getCH (c\<lparr>CX := v\<rparr>))) = v \<and>
   unat (CX (setCH (setCL c' lo) hi)) = 256 * unat hi + unat lo"
proof (intro conjI)
  show "getCL (c\<lparr>CX := v\<rparr>) = ucast (v AND 0xFF)"
    unfolding get_defs sel_upd ..
  show "getCH (c\<lparr>CX := v\<rparr>) = ucast (drop_bit 8 v AND 0xFF)"
    unfolding get_defs sel_upd by (rule get_after_write)
  show "unat (getCL (c\<lparr>CX := v\<rparr>)) = unat v mod 256"
    unfolding get_defs sel_upd by (rule get_after_write)
  show "unat (getCH (c\<lparr>CX := v\<rparr>)) = unat v div 256"
    unfolding get_defs sel_upd by (rule get_after_write)
  show "CX (setCH (setCL c' (getCL (c\<lparr>CX := v\<rparr>))) (getCH (c\<lparr>CX := v\<rparr>))) = v"
    unfolding get_defs sel_upd reg_setH reg_setL by (rule set_low_then_high)
  show "unat (CX (setCH (setCL c' lo) hi)) = 256 * unat hi + unat lo"
    unfolding reg_setH reg_setL set_low_then_high_cat by (rule unat_word_cat_bytes)
qed

lemma DX_aliasing:
  "getDL (c\<lparr>DX := v\<rparr>) = ucast (v AND 0xFF) \<and>
   getDH (c\<lparr>DX := v\<rparr>) = ucast (drop_bit 8 v AND 0xFF) \<and>
   unat (getDL (c\<lparr>DX := v\<rparr>)) = unat v mod 256 \<and>
   unat (getDH (c\<lparr>DX := v\<rparr>)) = unat v div 256 \<and>
   DX (setDH (setDL c' (getDL (c\<lparr>DX := v\<rparr>))) (getDH (c\<lparr>DX := v\<rparr>))) = v \<and>
   unat (DX (setDH (setDL c' lo) hi)) = 256 * unat hi + unat lo"
proof (intro conjI)
  show "getDL (c\<lparr>DX := v\<rparr>) = ucast (v AND 0xFF)"
    unfolding get_defs sel_upd ..
  show "getDH (c\<lparr>DX := v\<rparr>) = ucast (drop_bit 8 v AND 0xFF)"
    unfolding get_defs sel_upd by (rule get_after_write)
  show "unat (getDL (c\<lparr>DX := v\<rparr>)) = unat v mod 256"
    unfolding get_defs sel_upd by (rule get_after_write)
  show "unat (getDH (c\<lparr>DX := v\<rparr>)) = unat v div 256"
    unfolding get_defs sel_upd by (rule get_after_write)
  show "DX (setDH (setDL c' (getDL (c\<lparr>DX := v\<rparr>))) (getDH (c\<lparr>DX := v\<rparr>))) = v"
    unfolding get_defs sel_upd reg_setH reg_setL by (rule set_low_then_high)
  show "unat (DX (setDH (setDL c' lo) hi)) = 256 * unat hi + unat lo"
    unfolding reg_setH reg_setL set_low_then_high_cat by (rule unat_word_cat_bytes)
qed

lemma setAL_effect:
  "setAL c v = c\<lparr>AX := AX (setAL c v)\<rparr> \<and> getAL (setAL c v) = v \<and> getAH (setAL c v) = getAH c"
proof (intro conjI)
  show "setAL c v = c\<lparr>AX := AX (setAL c v)\<rparr>"
    by (rule frame_set)
  show "getAL (setAL c v) = v"
    unfolding get_defs reg_setL by (rule set_low_low)
  show "getAH (setAL c v) = getAH c"
    unfolding get_defs reg_setL by (rule set_low_high)
qed

lemma setAH_effect:
  "setAH c v = c\<lparr>AX := AX (setAH c v)\<rparr> \<and> getAH (setAH c v) = v \<and> getAL (setAH c v) = getAL c"
proof (intro conjI)
  show "setAH c v = c\<lparr>AX := AX (setAH c v)\<rparr>"
    by (rule frame_set)
  show "getAH (setAH c v) = v"
    unfolding get_defs reg_setH by (rule set_high_high)
  show "getAL (setAH c v) = getAL c"
    unfolding get_defs reg_setH by (rule set_high_low)
qed

lemma setBL_effect:
  "setBL c v = c\<lparr>BX := BX (setBL c v)\<rparr> \<and> getBL (setBL c v) = v \<and> getBH (setBL c v) = getBH c"
proof (intro conjI)
  show "setBL c v = c\<lparr>BX := BX (setBL c v)\<rparr>"
    by (rule frame_set)
  show "getBL (setBL c v) = v"
    unfolding get_defs reg_setL by (rule set_low_low)
  show "getBH (setBL c v) = getBH c"
    unfolding get_defs reg_setL by (rule set_low_high)
qed

lemma setBH_effect:
  "setBH c v = c\<lparr>BX := BX (setBH c v)\<rparr> \<and> getBH (setBH c v) = v \<and> getBL (setBH c v) = getBL c"
proof (intro conjI)
  show "setBH c v = c\<lparr>BX := BX (setBH c v)\<rparr>"
    by (rule frame_set)
  show "getBH (setBH c v) = v"
    unfolding get_defs reg_setH by (rule set_high_high)
  show "getBL (setBH c v) = getBL c"
    unfolding get_defs reg_setH by (rule set_high_low)
qed

lemma setCL_effect:
  "setCL c v = c\<lparr>CX := CX (setCL c v)\<rparr> \<and> getCL (setCL c v) = v \<and> getCH (setCL c v) = getCH c"
proof (intro conjI)
  show "setCL c v = c\<lparr>CX := CX (setCL c v)\<rparr>"
    by (rule frame_set)
  show "getCL (setCL c v) = v"
    unfolding get_defs reg_setL by (rule set_low_low)
  show "getCH (setCL c v) = getCH c"
    unfolding get_defs reg_setL by (rule set_low_high)
qed

lemma setCH_effect:
  "setCH c v = c\<lparr>CX := CX (setCH c v)\<rparr> \<and> getCH (setCH c v) = v \<and> getCL (setCH c v) = getCL c"
proof (intro conjI)
  show "setCH c v = c\<lparr>CX := CX (setCH c v)\<rparr>"
    by (rule frame_set)
  show "getCH (setCH c v) = v"
    unfolding get_defs reg_setH by (rule set_high_high)
  show "getCL (setCH c v) = getCL c"
    unfolding get_defs reg_setH by (rule set_high_low)
qed

lemma setDL_effect:
  "setDL c v = c\<lparr>DX := DX (setDL c v)\<rparr> \<and> getDL (setDL c v) = v \<and> getDH (setDL c v) = getDH c"
proof (intro conjI)
  show "setDL c v = c\<lparr>DX := DX (setDL c v)\<rparr>"
    by (rule frame_set)
  show "getDL (setDL c v) = v"
    unfolding get_defs reg_setL by (rule set_low_low)
  show "getDH (setDL c v) = getDH c"
    unfolding get_defs reg_setL by (rule set_low_high)
qed

lemma setDH_effect:
  "setDH c v = c\<lparr>DX := DX (setDH c v)\<rparr> \<and> getDH (setDH c v) = v \<and> getDL (setDH c v) = getDL c"
proof (intro conjI)
  show "setDH c v = c\<lparr>DX := DX (setDH c v)\<rparr>"
    by (rule frame_set)
  show "getDH (setDH c v) = v"
    unfolding get_defs reg_setH by (rule set_high_high)
  show "getDL (setDH c v) = getDL c"
    unfolding get_defs reg_setH by (rule set_high_low)
qed

text \<open>
  Claim C7. For every 16-bit value \<open>v\<close>, after \<open>v\<close> is written into \<open>AX\<close>, \<^verbatim>\<open>getAL\<close> returns
  \<open>v & 0xFF\<close> (the value \<open>v mod 256\<close>) and \<^verbatim>\<open>getAH\<close> returns \<open>(v >> 8) & 0xFF\<close> (the value
  \<open>v div 256\<close>). Writing the low byte of \<open>v\<close> with \<^verbatim>\<open>setAL\<close> and then its high byte with
  \<^verbatim>\<open>setAH\<close>, from any state, gives \<open>AX = v\<close> again; for any two bytes, the register then
  holds \<open>256 * hi + lo\<close>. The same holds for \<open>BX\<close>, \<open>CX\<close> and \<open>DX\<close> with their
  sub-registers.
\<close>

theorem C7_sub_register_aliasing:
  "(getAL (c\<lparr>AX := v\<rparr>) = ucast (v AND 0xFF) \<and>
    getAH (c\<lparr>AX := v\<rparr>) = ucast (drop_bit 8 v AND 0xFF) \<and>
    unat (getAL (c\<lparr>AX := v\<rparr>)) = unat v mod 256 \<and>
    unat (getAH (c\<lparr>AX := v\<rparr>)) = unat v div 256 \<and>
    AX (setAH (setAL c' (getAL (c\<lparr>AX := v\<rparr>))) (getAH (c\<lparr>AX := v\<rparr>))) = v \<and>
    unat (AX (setAH (setAL c' lo) hi)) = 256 * unat hi + unat lo) \<and>
   (getBL (c\<lparr>BX := v\<rparr>) = ucast (v AND 0xFF) \<and>
    getBH (c\<lparr>BX := v\<rparr>) = ucast (drop_bit 8 v AND 0xFF) \<and>
    unat (getBL (c\<lparr>BX := v\<rparr>)) = unat v mod 256 \<and>
    unat (getBH (c\<lparr>BX := v\<rparr>)) = unat v div 256 \<and>
    BX (setBH (setBL c' (getBL (c\<lparr>BX := v\<rparr>))) (getBH (c\<lparr>BX := v\<rparr>))) = v \<and>
    unat (BX (setBH (setBL c' lo) hi)) = 256 * unat hi + unat lo) \<and>
   (getCL (c\<lparr>CX := v\<rparr>) = ucast (v AND 0xFF) \<and>
    getCH (c\<lparr>CX := v\<rparr>) = ucast (drop_bit 8 v AND 0xFF) \<and>
    unat (getCL (c\<lparr>CX := v\<rparr>)) = unat v mod 256 \<and>
    unat (getCH (c\<lparr>CX := v\<rparr>)) = unat v div 256 \<and>
    CX (setCH (setCL c' (getCL (c\<lparr>CX := v\<rparr>))) (getCH (c\<lparr>CX := v\<rparr>))) = v \<and>
    unat (CX (setCH (setCL c' lo) hi)) = 256 * unat hi + unat lo) \<and>
   (getDL (c\<lparr>DX := v\<rparr>) = ucast (v AND 0xFF) \<and>
    getDH (c\<lparr>DX := v\<rparr>) = ucast (drop_bit 8 v AND 0xFF) \<and>
    unat (getDL (c\<lparr>DX := v\<rparr>)) = unat v mod 256 \<and>
    unat (getDH (c\<lparr>DX := v\<rparr>)) = unat v div 256 \<and>
    DX (setDH (setDL c' (getDL (c\<lparr>DX := v\<rparr>))) (getDH (c\<lparr>DX := v\<rparr>))) = v \<and>
    unat (DX (setDH (setDL c' lo) hi)) = 256 * unat hi + unat lo)"
  by (rule conjI [OF AX_aliasing conjI [OF BX_aliasing conjI [OF CX_aliasing DX_aliasing]]])

text \<open>
  Claim C8. For every CPU state and every byte, each of the eight setters changes only
  its owning 16-bit register: the resulting state is the old one with that single field
  replaced, so every other register, \<^verbatim>\<open>programSize\<close> and all of memory are as before.
  The byte that was set reads back as the value written, and the sibling byte of the same
  register reads back as before.
\<close>

theorem C8_setters_frame:
  "(setAL c v = c\<lparr>AX := AX (setAL c v)\<rparr> \<and> getAL (setAL c v) = v \<and> getAH (setAL c v) = getAH c) \<and>
   (setAH c v = c\<lparr>AX := AX (setAH c v)\<rparr> \<and> getAH (setAH c v) = v \<and> getAL (setAH c v) = getAL c) \<and>
   (setBL c v = c\<lparr>BX := BX (setBL c v)\<rparr> \<and> getBL (setBL c v) = v \<and> getBH (setBL c v) = getBH c) \<and>
   (setBH c v = c\<lparr>BX := BX (setBH c v)\<rparr> \<and> getBH (setBH c v) = v \<and> getBL (setBH c v) = getBL c) \<and>
   (setCL c v = c\<lparr>CX := CX (setCL c v)\<rparr> \<and> getCL (setCL c v) = v \<and> getCH (setCL c v) = getCH c) \<and>
   (setCH c v = c\<lparr>CX := CX (setCH c v)\<rparr> \<and> getCH (setCH c v) = v \<and> getCL (setCH c v) = getCL c) \<and>
   (setDL c v = c\<lparr>DX := DX (setDL c v)\<rparr> \<and> getDL (setDL c v) = v \<and> getDH (setDL c v) = getDH c) \<and>
   (setDH c v = c\<lparr>DX := DX (setDH c v)\<rparr> \<and> getDH (setDH c v) = v \<and> getDL (setDH c v) = getDL c)"
  by (rule conjI [OF setAL_effect conjI [OF setAH_effect conjI [OF setBL_effect conjI [OF setBH_effect conjI [OF setCL_effect conjI [OF setCH_effect conjI [OF setDL_effect setDH_effect]]]]]]])

subsection \<open>The decoder\<close>

lemma unat_bit_field: "unat (bit_field x lo n) = (unat x div 2 ^ lo) mod 2 ^ n"
proof -
  have "unat (take_bit n (drop_bit lo x)) = take_bit n (drop_bit lo (unat x))"
    by (simp only: unsigned_take_bit_eq unat_drop_bit_eq)
  then show ?thesis
    by (simp add: bit_field_def take_bit_eq_mod drop_bit_eq_div)
qed

lemma unat_u8_less: "unat x < 256" for x :: u8
  using unsigned_less [of x, where 'a = nat] by simp

lemma unat_fields:
  "unat (bit_field x 2 6) = unat x div 4"
  "unat (bit_field x 1 1) = unat x div 2 mod 2"
  "unat (bit_field x 0 1) = unat x mod 2"
  "unat (bit_field x 6 2) = unat x div 64"
  "unat (bit_field x 3 3) = unat x div 8 mod 8"
  "unat (bit_field x 0 3) = unat x mod 8"
  using unat_u8_less [of x] by (simp_all add: unat_bit_field)

lemma mask_FC: "(0xFC :: u8) = NOT (mask 2)"
  by (simp add: mask_eq_exp_minus_1)

lemma mask_C0: "(0xC0 :: u8) = NOT (mask 6)"
  by (simp add: mask_eq_exp_minus_1)

lemma mask_38: "(0x38 :: u8) = push_bit 3 (mask 3)"
  by (simp add: mask_eq_exp_minus_1)

lemma mask_07: "(0x07 :: u8) = mask 3"
  by (simp add: mask_eq_exp_minus_1)

lemma mask_02: "(0x02 :: u8) = push_bit 1 (mask 1)"
  by (simp add: mask_eq_exp_minus_1)

lemma field_opcode: "drop_bit 2 (x AND 0xFC) = bit_field x 2 6" for x :: u8
  unfolding mask_FC bit_field_def
  by (rule bit_word_eqI) (auto simp: bit_simps dest: bit_imp_le_length)

lemma field_d: "drop_bit 1 (x AND 0x2) = bit_field x 1 1" for x :: u8
  unfolding mask_02 bit_field_def
  by (rule bit_word_eqI)
    (auto simp: bit_simps bit_iff_odd_drop_bit [of _ "Suc 0"] dest: bit_imp_le_length)

lemma field_w: "x AND 0x1 = bit_field x 0 1" for x :: u8
  unfolding bit_field_def
  by (rule bit_word_eqI) (auto simp: bit_simps bit_0 dest: bit_imp_le_length)

lemma field_mod: "drop_bit 6 (x AND 0xC0) = bit_field x 6 2" for x :: u8
  unfolding mask_C0 bit_field_def
  by (rule bit_word_eqI) (auto simp: bit_simps dest: bit_imp_le_length)

lemma field_reg: "drop_bit 3 (x AND 0x38) = bit_field x 3 3" for x :: u8
  unfolding mask_38 bit_field_def
  by (rule bit_word_eqI) (auto simp: bit_simps dest: bit_imp_le_length)

lemma field_rm: "x AND 0x07 = bit_field x 0 3" for x :: u8
  unfolding mask_07 bit_field_def
  by (rule bit_word_eqI) (auto simp: bit_simps dest: bit_imp_le_length)

lemma unat_u16_less: "unat pc < 65536" for pc :: u16
  using unsigned_less [of pc, where 'a = nat] by simp

lemma pc_in_bounds: "unat pc < MEMSIZE" for pc :: u16
  using unat_u16_less [of pc] by (simp add: MEMSIZE_def)

lemma mem_index_pc: "mem_index m (unat pc) = Inr (m (unat pc))" for pc :: u16
  by (simp add: mem_index_def pc_in_bounds)

lemma decode_eq:
  "DecodeInatruction c =
     Return ([Printf_mnemonic (mnemonics_index (bit_field (Memory c (unat (PC c))) 2 6)),
              Printf_fields (bit_field (Memory c (unat (PC c))) 2 6)
                            (bit_field (Memory c (unat (PC c))) 1 1)
                            (bit_field (Memory c (unat (PC c))) 0 1)
                            (bit_field (Memory c (unat (PC c + 1))) 6 2)
                            (bit_field (Memory c (unat (PC c + 1))) 3 3)
                            (bit_field (Memory c (unat (PC c + 1))) 0 3)],
             Instruction, None)
            (c\<lparr>PC := PC c + 2\<rparr>)"
  unfolding DecodeInatruction_def Let_def
  apply (simp only: field_opcode field_d field_w field_mod field_reg field_rm)
  apply (simp add: mem_index_pc)
  done

text \<open>
  Claim C1. For every memory image and every program counter, \<^verbatim>\<open>DecodeInatruction\<close>
  returns, and the fields it extracts are: from the byte at \<open>PC\<close>, the opcode-class as its
  top 6 bits (the byte \<open>div 4\<close>), the direction bit as bit 1 and the width bit as bit 0;
  from the byte fetched next (at \<open>PC + 1\<close> in 16-bit arithmetic), the mode as its top 2
  bits, the register selector as its middle 3 bits and the register/memory selector as
  its low 3 bits. The program counter ends at its starting value plus 2, as a 16-bit
  value.
\<close>

theorem C1_decode_extracts_fields:
  "\<exists>opcode d w mode reg rm.
     DecodeInatruction c =
       Return ([Printf_mnemonic (mnemonics_index opcode), Printf_fields opcode d w mode reg rm],
               Instruction, None)
              (c\<lparr>PC := PC c + 2\<rparr>) \<and>
     unat opcode = unat (Memory c (unat (PC c))) div 4 \<and>
     unat d = unat (Memory c (unat (PC c))) div 2 mod 2 \<and>
     unat w = unat (Memory c (unat (PC c))) mod 2 \<and>
     unat mode = unat (Memory c (unat (PC c + 1))) div 64 \<and>
     unat reg = unat (Memory c (unat (PC c + 1))) div 8 mod 8 \<and>
     unat rm = unat (Memory c (unat (PC c + 1))) mod 8"
proof (intro exI conjI)
  show "DecodeInatruction c =
     Return ([Printf_mnemonic (mnemonics_index (bit_field (Memory c (unat (PC c))) 2 6)),
              Printf_fields (bit_field (Memory c (unat (PC c))) 2 6)
                            (bit_field (Memory c (unat (PC c))) 1 1)
                            (bit_field (Memory c (unat (PC c))) 0 1)
                            (bit_field (Memory c (unat (PC c + 1))) 6 2)
                            (bit_field (Memory c (unat (PC c + 1))) 3 3)
                            (bit_field (Memory c (unat (PC c + 1))) 0 3)],
             Instruction, None)
            (c\<lparr>PC := PC c + 2\<rparr>)"
    by (rule decode_eq)
qed (rule unat_fields)+

text \<open>
  Claim C9. For every starting state, decoding one instruction returns in a state that
  differs from the starting one in the program counter only: every byte of memory and
  every other register (and \<^verbatim>\<open>programSize\<close>) is unchanged.
\<close>

theorem C9_decode_frame:
  "\<exists>r c'. DecodeInatruction c = Return r c' \<and> c' = c\<lparr>PC := PC c + 2\<rparr> \<and>
     Memory c' = Memory c \<and> SP c' = SP c \<and> AX c' = AX c \<and> BX c' = BX c \<and>
     CX c' = CX c \<and> DX c' = DX c \<and> SI c' = SI c \<and> DI c' = DI c \<and> BP c' = BP c \<and>
     CS c' = CS c \<and> DS c' = DS c \<and> ES c' = ES c \<and> SS c' = SS c \<and> IP c' = IP c \<and>
     FL c' = FL c \<and> Flag c' = Flag c \<and> programSize c' = programSize c"
  by (simp add: decode_eq)

lemma unat_pc_plus: "unat (pc + 1) = (unat pc + 1) mod 65536" "unat (pc + 2) = (unat pc + 2) mod 65536"
  for pc :: u16
  by (simp_all add: unat_word_ariths)

text \<open>
  Claim C10. For every state, the two fetch indices of the decoder, \<open>PC\<close> and \<open>PC + 1\<close>
  as 16-bit values, are below 65536, and memory has \<open>MEMSIZE = 1048576 > 65536\<close> bytes, so
  both indexings succeed and the decoder never panics. It returns a \<^verbatim>\<open>nil\<close> error with the
  program counter advanced by 2 modulo \<open>2^16\<close>: from \<open>0xFFFF\<close> it wraps to \<open>1\<close> (the second
  fetch being at address 0), and nothing is signalled.
\<close>

theorem C10_fetches_in_bounds:
  "unat (PC c) < 65536 \<and> unat (PC c + 1) < 65536 \<and> 65536 < MEMSIZE \<and>
   unat (PC c + 1) = (unat (PC c) + 1) mod 65536 \<and>
   mem_index (Memory c) (unat (PC c)) = Inr (Memory c (unat (PC c))) \<and>
   mem_index (Memory c) (unat (PC c + 1)) = Inr (Memory c (unat (PC c + 1))) \<and>
   (\<forall>p c'. DecodeInatruction c \<noteq> Panic p c') \<and>
   (\<exists>out c'. DecodeInatruction c = Return (out, Instruction, None) c' \<and>
      unat (PC c') = (unat (PC c) + 2) mod 65536) \<and>
   (\<exists>out. DecodeInatruction (c\<lparr>PC := 0xFFFF\<rparr>) = Return (out, Instruction, None) (c\<lparr>PC := 1\<rparr>))"
proof (intro conjI)
  show "unat (PC c) < 65536" "unat (PC c + 1) < 65536"
    by (rule unat_u16_less)+
  show "65536 < MEMSIZE"
    by (simp add: MEMSIZE_def)
  show "unat (PC c + 1) = (unat (PC c) + 1) mod 65536"
    by (rule unat_pc_plus)
  show "mem_index (Memory c) (unat (PC c)) = Inr (Memory c (unat (PC c)))"
    "mem_index (Memory c) (unat (PC c + 1)) = Inr (Memory c (unat (PC c + 1)))"
    by (rule mem_index_pc)+
  show "\<forall>p c'. DecodeInatruction c \<noteq> Panic p c'"
    by (simp add: decode_eq)
  show "\<exists>out c'. DecodeInatruction c = Return (out, Instruction, None) c' \<and>
      unat (PC c') = (unat (PC c) + 2) mod 65536"
    by (simp add: decode_eq unat_pc_plus)
  show "\<exists>out. DecodeInatruction (c\<lparr>PC := 0xFFFF\<rparr>) = Return (out, Instruction, None) (c\<lparr>PC := 1\<rparr>)"
    by (simp add: decode_eq)
qed

subsection \<open>The length computation\<close>

lemma calcLen_invalid: "opcode \<noteq> 34 \<Longrightarrow> calcLen c opcode d w mode rm = (0, Some (InvalidOpcode opcode))"
  by (simp add: calcLen_def)

lemma calcLen_MOV: "calcLen c 34 d w mode rm = ((if w = 1 then 2 else 1), None)"
  by (simp add: calcLen_def)

lemma NewCPU_sel: "PC NewCPU = 0" "Memory NewCPU = (\<lambda>_. 0)"
  by (simp_all add: NewCPU_def)

text \<open>
  Claim C2 as stated fails. For the bytes \<open>88 C3\<close> (opcode-class \<open>100010\<close>, \<open>d = 0\<close>,
  \<open>w = 0\<close>, mode \<open>11\<close>, register/memory \<open>011\<close>) the rule of the specification gives 2 bytes
  (base 2, no displacement, no immediate), and \<^verbatim>\<open>calcLen\<close> returns 1.
\<close>

theorem C2_length_counterexample:
  "calcLen NewCPU 34 0 0 3 3 = (1, None) \<and>
   spec_instruction_length 0 3 3 0 = 2 \<and>
   unat (fst (calcLen NewCPU 34 0 0 3 3)) \<noteq> spec_instruction_length 0 3 3 0"
  by (simp add: calcLen_MOV spec_instruction_length_def spec_disp_bytes_def)

text \<open>
  Claim C2, amended. For opcode-class \<open>100010\<close> the computed length is 1, or 2 when the
  width bit is 1, and a \<^verbatim>\<open>nil\<close> error; it does not depend on \<open>d\<close>, \<open>mod\<close> or \<open>rm\<close> (nor on the
  CPU), so no base of 2 bytes and no displacement or immediate byte enters it. For every
  other opcode-class the computation returns length 0 with an "invalid opcode" error,
  whatever the width bit is: the width bit is consulted for opcode-class \<open>100010\<close> only.
\<close>

theorem C2_calcLen_width_only:
  "calcLen c 34 d w mode rm = ((if w = 1 then 2 else 1), None) \<and>
   calcLen c 34 d w mode rm = calcLen c' 34 d' w mode' rm' \<and>
   (opcode \<noteq> 34 \<longrightarrow>
      calcLen c opcode d w mode rm = (0, Some (InvalidOpcode opcode)) \<and>
      calcLen c opcode d w mode rm = calcLen c' opcode d' w' mode' rm')"
  by (simp add: calcLen_MOV calcLen_invalid)

theorem C2_calcLen_width_only_witness:
  "calcLen NewCPU 34 0 1 1 0 = (2, None) \<and>
   calcLen NewCPU 34 0 0 1 0 = (1, None) \<and>
   calcLen NewCPU 34 0 1 1 0 = calcLen NewCPU 34 1 1 3 6 \<and>
   (0::u8) \<noteq> 34 \<and>
   calcLen NewCPU 0 0 1 1 0 = (0, Some (InvalidOpcode 0)) \<and>
   calcLen NewCPU 0 0 1 1 0 = calcLen NewCPU 0 1 0 3 6"
  using C2_calcLen_width_only [of NewCPU 0 1 1 0 NewCPU 1 3 6 0 0]
    C2_calcLen_width_only [of NewCPU 0 0 1 0 NewCPU 1 3 6 0 0]
  by auto

subsection \<open>Opcode-classes without a table entry\<close>

lemma opcode_class_neq:
  "unat x div 4 \<noteq> 34 \<Longrightarrow> bit_field x 2 6 \<noteq> 34" for x :: u8
proof
  assume ne: "unat x div 4 \<noteq> 34" and eq: "bit_field x 2 6 = 34"
  have "unat (bit_field x 2 6) = unat x div 4"
    by (rule unat_fields)
  with eq have "unat x div 4 = 34"
    by simp
  with ne show False ..
qed

lemma mnemonics_None: "opcode \<noteq> 34 \<Longrightarrow> mnemonics opcode = None"
  by (simp add: mnemonics_def)

lemma mnemonics_index_absent: "opcode \<noteq> 34 \<Longrightarrow> mnemonics_index opcode = []"
  by (simp add: mnemonics_index_def mnemonics_def)

lemma displacement_bytes:
  "bit_field 0x34 2 6 = 13" "bit_field 0x34 1 1 = 0" "bit_field 0x34 0 1 = 0"
  "bit_field 0x12 6 2 = 0" "bit_field 0x12 3 3 = 2" "bit_field 0x12 0 3 = 2"
  unfolding word_unat_eq_iff unat_fields by simp_all

lemma direct_address_cpu_displacement:
  "Memory direct_address_cpu 2 = 0x34" "Memory direct_address_cpu 3 = 0x12"
  by (simp_all add: direct_address_cpu_def)

text \<open>
  Claim C3 as stated fails. With \<open>PC = 2\<close> and the bytes \<open>34 12\<close> there, the fetched
  opcode-class is \<open>001101\<close> (13), which has no entry in \<^verbatim>\<open>mnemonics\<close>; decoding prints an
  empty mnemonic and returns a \<^verbatim>\<open>nil\<close> error.
\<close>

theorem C3_unsupported_opcode_counterexample:
  "mnemonics 13 = None \<and>
   DecodeInatruction (direct_address_cpu\<lparr>PC := 2\<rparr>) =
     Return ([Printf_mnemonic [], Printf_fields 13 0 0 0 2 2], Instruction, None)
            (direct_address_cpu\<lparr>PC := 4\<rparr>)"
  unfolding decode_eq
  by (simp add: direct_address_cpu_displacement displacement_bytes mnemonics_index_def
      mnemonics_def del: One_nat_def)

text \<open>
  Claim C3, amended. For every starting state whose fetched opcode-class (the top 6 bits
  of the byte at \<open>PC\<close>) is not \<open>100010\<close>, the opcode-class has no entry in \<^verbatim>\<open>mnemonics\<close>, and
  \<^verbatim>\<open>DecodeInatruction\<close> does not fail: it prints an empty mnemonic and returns
  \<^verbatim>\<open>Instruction{}\<close> with a \<^verbatim>\<open>nil\<close> error, the program counter advanced by 2. The "invalid
  opcode" error for such an opcode-class is what \<^verbatim>\<open>calcLen\<close> returns on the same fields;
  the decoder does not call it.
\<close>

theorem C3_unsupported_opcode_returns_nil:
  assumes "unat (Memory c (unat (PC c))) div 4 \<noteq> 34"
  shows "\<exists>opcode d w mode reg rm.
     unat opcode = unat (Memory c (unat (PC c))) div 4 \<and>
     mnemonics opcode = None \<and>
     DecodeInatruction c =
       Return ([Printf_mnemonic [], Printf_fields opcode d w mode reg rm], Instruction, None)
              (c\<lparr>PC := PC c + 2\<rparr>) \<and>
     calcLen c opcode d w mode rm = (0, Some (InvalidOpcode opcode))"
proof -
  let ?opcode = "bit_field (Memory c (unat (PC c))) 2 6"
  have ne: "?opcode \<noteq> 34"
    using assms by (rule opcode_class_neq)
  have "DecodeInatruction c =
     Return ([Printf_mnemonic [],
              Printf_fields ?opcode
                            (bit_field (Memory c (unat (PC c))) 1 1)
                            (bit_field (Memory c (unat (PC c))) 0 1)
                            (bit_field (Memory c (unat (PC c + 1))) 6 2)
                            (bit_field (Memory c (unat (PC c + 1))) 3 3)
                            (bit_field (Memory c (unat (PC c + 1))) 0 3)],
             Instruction, None)
            (c\<lparr>PC := PC c + 2\<rparr>)"
    using decode_eq [of c] mnemonics_index_absent [OF ne] by (simp only:)
  moreover have "unat ?opcode = unat (Memory c (unat (PC c))) div 4"
    by (rule unat_fields)
  moreover note mnemonics_None [OF ne] calcLen_invalid [OF ne]
  ultimately show ?thesis
    by blast
qed

text \<open>The zero CPU: the byte at \<open>PC = 0\<close> is \<open>00\<close>, of opcode-class \<open>000000\<close>.\<close>

theorem C3_unsupported_opcode_returns_nil_witness:
  "unat (Memory NewCPU (unat (PC NewCPU))) div 4 \<noteq> 34 \<and>
   mnemonics 0 = None \<and>
   DecodeInatruction NewCPU =
     Return ([Printf_mnemonic [], Printf_fields 0 0 0 0 0 0], Instruction, None)
            (NewCPU\<lparr>PC := 2\<rparr>) \<and>
   calcLen NewCPU 0 0 0 0 0 = (0, Some (InvalidOpcode 0))"
proof -
  have h: "unat (Memory NewCPU (unat (PC NewCPU))) div 4 \<noteq> 34"
    by (simp add: NewCPU_sel)
  obtain opcode d w mode reg rm where
    op: "unat opcode = unat (Memory NewCPU (unat (PC NewCPU))) div 4" and
    mn: "mnemonics opcode = None" and
    dec: "DecodeInatruction NewCPU =
       Return ([Printf_mnemonic [], Printf_fields opcode d w mode reg rm], Instruction, None)
              (NewCPU\<lparr>PC := PC NewCPU + 2\<rparr>)" and
    len: "calcLen NewCPU opcode d w mode rm = (0, Some (InvalidOpcode opcode))"
    using C3_unsupported_opcode_returns_nil [OF h] by blast
  have "DecodeInatruction NewCPU =
     Return ([Printf_mnemonic [], Printf_fields 0 0 0 0 0 0], Instruction, None)
            (NewCPU\<lparr>PC := 2\<rparr>)"
    by (simp add: decode_eq NewCPU_sel bit_field_def mnemonics_index_def mnemonics_def)
  with dec have "opcode = 0" "d = 0" "w = 0" "mode = 0" "reg = 0" "rm = 0"
    by simp_all
  with h mn dec len show ?thesis
    by (simp add: NewCPU_sel)
qed

subsection \<open>The loader\<close>

lemma load_loop_stop:
  "i < length b \<Longrightarrow> \<not> i < MEMSIZE \<Longrightarrow> load_loop b i c = Inl (IndexOutOfRange i, c)"
  by (subst load_loop.simps) simp

lemma load_loop_step:
  "i < length b \<Longrightarrow> i < MEMSIZE \<Longrightarrow>
   load_loop b i c = load_loop b (i + 1) (c\<lparr>Memory := (Memory c)(i := b ! i)\<rparr>)"
  by (subst load_loop.simps) simp

lemma Memory_same: "c\<lparr>Memory := Memory c\<rparr> = c"
  by simp

lemma Memory_twice: "c\<lparr>Memory := m\<rparr>\<lparr>Memory := m'\<rparr> = c\<lparr>Memory := m'\<rparr>"
  by simp

text \<open>
  An image longer than the memory: the loop stores the first \<open>MEMSIZE\<close> bytes and then
  panics at index \<open>MEMSIZE\<close>.
\<close>

lemma load_loop_overflow:
  "i \<le> MEMSIZE \<Longrightarrow> MEMSIZE < length b \<Longrightarrow>
   load_loop b i c =
     Inl (IndexOutOfRange MEMSIZE,
          c\<lparr>Memory := (\<lambda>j. if i \<le> j \<and> j < MEMSIZE then b ! j else Memory c j)\<rparr>)"
proof (induction "MEMSIZE - i" arbitrary: i c)
  case 0
  then have i: "i = MEMSIZE"
    by simp
  have "(\<lambda>j. if i \<le> j \<and> j < MEMSIZE then b ! j else Memory c j) = Memory c"
    unfolding i by (rule ext) auto
  then have "c\<lparr>Memory := (\<lambda>j. if i \<le> j \<and> j < MEMSIZE then b ! j else Memory c j)\<rparr> = c"
    by (simp only: Memory_same)
  moreover have "load_loop b i c = Inl (IndexOutOfRange i, c)"
    using "0.prems" unfolding i by (intro load_loop_stop) simp_all
  ultimately show ?case
    unfolding i by (simp only:)
next
  case (Suc k)
  then have lt: "i < MEMSIZE" and k: "k = MEMSIZE - (i + 1)"
    by simp_all
  let ?c = "c\<lparr>Memory := (Memory c)(i := b ! i)\<rparr>"
  have "load_loop b i c = load_loop b (i + 1) ?c"
    using lt Suc.prems by (intro load_loop_step) simp_all
  also have "\<dots> = Inl (IndexOutOfRange MEMSIZE,
      ?c\<lparr>Memory := (\<lambda>j. if i + 1 \<le> j \<and> j < MEMSIZE then b ! j else Memory ?c j)\<rparr>)"
    using lt Suc.prems by (intro Suc.hyps(1) [OF k]) simp_all
  also have "?c\<lparr>Memory := (\<lambda>j. if i + 1 \<le> j \<and> j < MEMSIZE then b ! j else Memory ?c j)\<rparr>
      = c\<lparr>Memory := (\<lambda>j. if i + 1 \<le> j \<and> j < MEMSIZE then b ! j else Memory ?c j)\<rparr>"
    by (rule Memory_twice)
  also have "(\<lambda>j. if i + 1 \<le> j \<and> j < MEMSIZE then b ! j else Memory ?c j)
      = (\<lambda>j. if i \<le> j \<and> j < MEMSIZE then b ! j else Memory c j)"
  proof (rule ext)
    fix j
    show "(if i + 1 \<le> j \<and> j < MEMSIZE then b ! j else Memory ?c j)
        = (if i \<le> j \<and> j < MEMSIZE then b ! j else Memory c j)"
      using lt by (cases "j = i") auto
  qed
  finally show ?case .
qed

text \<open>
  Claim C4 on the code. For every file whose contents are longer than the
  \<open>MEMSIZE = 1048576\<close> bytes of memory, \<^verbatim>\<open>LoadProgram\<close> does not return an error: it
  panics with an index out of range at index \<open>MEMSIZE\<close>, after it has overwritten every
  byte of memory with the first \<open>MEMSIZE\<close> bytes of the file. No store is out of range.
\<close>

theorem C4_oversized_image_panics:
  assumes "fs filename = Contents b" and "MEMSIZE < length b"
  shows "LoadProgram fs c filename =
     Panic (IndexOutOfRange MEMSIZE)
           (c\<lparr>Memory := (\<lambda>j. if j < MEMSIZE then b ! j else Memory c j)\<rparr>)"
proof -
  have "load_loop b 0 c =
     Inl (IndexOutOfRange MEMSIZE,
          c\<lparr>Memory := (\<lambda>j. if 0 \<le> j \<and> j < MEMSIZE then b ! j else Memory c j)\<rparr>)"
    using assms(2) by (intro load_loop_overflow) simp_all
  then have "load_loop b 0 c =
     Inl (IndexOutOfRange MEMSIZE,
          c\<lparr>Memory := (\<lambda>j. if j < MEMSIZE then b ! j else Memory c j)\<rparr>)"
    by simp
  with assms(1) show ?thesis
    unfolding LoadProgram_def by (simp only: file_contents.case sum.case prod.case)
qed

lemma oversized_image_props:
  "MEMSIZE < length oversized_image" "oversized_image ! 0 = 1"
proof -
  show "MEMSIZE < length oversized_image"
    by (simp add: oversized_image_def)
  show "oversized_image ! 0 = 1"
    unfolding oversized_image_def by (intro nth_replicate) simp
qed

text \<open>
  A file of \<open>MEMSIZE + 1\<close> bytes \<open>01\<close> loaded into the zero CPU: the byte at address 0 is
  \<open>00\<close> before the call and \<open>01\<close> at the panic.
\<close>

theorem C4_oversized_image_panics_witness:
  "(\<lambda>_. Contents oversized_image) ''program.bin'' = Contents oversized_image \<and>
   MEMSIZE < length oversized_image \<and>
   LoadProgram (\<lambda>_. Contents oversized_image) NewCPU ''program.bin'' =
     Panic (IndexOutOfRange MEMSIZE)
           (NewCPU\<lparr>Memory := (\<lambda>j. if j < MEMSIZE then oversized_image ! j else Memory NewCPU j)\<rparr>) \<and>
   Memory (NewCPU\<lparr>Memory := (\<lambda>j. if j < MEMSIZE then oversized_image ! j else Memory NewCPU j)\<rparr>) 0 = 1 \<and>
   Memory NewCPU 0 = 0"
proof -
  have fs: "(\<lambda>_. Contents oversized_image) ''program.bin'' = Contents oversized_image"
    by simp
  have "0 < MEMSIZE"
    by (simp add: MEMSIZE_def)
  then have "Memory (NewCPU\<lparr>Memory := (\<lambda>j. if j < MEMSIZE then oversized_image ! j else Memory NewCPU j)\<rparr>) 0 = 1"
    by (simp add: oversized_image_props)
  moreover have "Memory NewCPU 0 = 0"
    by (simp add: NewCPU_def)
  moreover note C4_oversized_image_panics [OF fs oversized_image_props(1), of NewCPU]
    fs oversized_image_props(1)
  ultimately show ?thesis
    by (intro conjI)
qed

subsection \<open>Mode 00 with register/memory selector 110\<close>

lemma mode_rm_fields:
  fixes x :: u8
  assumes "unat x div 64 = 0" and "unat x mod 8 = 6"
  shows "bit_field x 6 2 = 0" and "bit_field x 0 3 = 6"
proof -
  have "unat (bit_field x 6 2) = unat (0 :: u8)"
    using assms(1) by (simp add: unat_fields)
  then show "bit_field x 6 2 = 0"
    by (simp only: word_unat_eq_iff)
  have "unat (bit_field x 0 3) = unat (6 :: u8)"
    using assms(2) by (simp add: unat_fields)
  then show "bit_field x 0 3 = 6"
    by (simp only: word_unat_eq_iff)
qed

lemma direct_address_cpu_sel:
  "PC direct_address_cpu = 0"
  "Memory direct_address_cpu 0 = 0x88"
  "Memory direct_address_cpu (Suc 0) = 0x06"
  "Memory direct_address_cpu 1 = 0x06"
  by (simp_all add: direct_address_cpu_def NewCPU_def)

lemma MOV_bytes:
  "bit_field 0x88 2 6 = 34" "bit_field 0x88 1 1 = 0" "bit_field 0x88 0 1 = 0"
  "bit_field 0x06 6 2 = 0" "bit_field 0x06 3 3 = 0" "bit_field 0x06 0 3 = 6"
  unfolding word_unat_eq_iff unat_fields by simp_all

lemma mnemonics_index_MOV: "mnemonics_index 34 = ''MOV''"
  by (simp add: mnemonics_index_def mnemonics_def)

text \<open>
  Claim C5 as stated fails. With \<open>88 06 34 12\<close> at address 0 (mode \<open>00\<close>, register/memory
  \<open>110\<close>, displacement \<open>1234\<close> hexadecimal), decoding returns the empty \<^verbatim>\<open>Instruction{}\<close> and
  leaves \<open>PC = 2\<close>, not 4: the two displacement bytes are not consumed.
\<close>

theorem C5_direct_address_counterexample:
  "DecodeInatruction direct_address_cpu =
     Return ([Printf_mnemonic ''MOV'', Printf_fields 34 0 0 0 0 6], Instruction, None)
            (direct_address_cpu\<lparr>PC := 2\<rparr>) \<and>
   PC (direct_address_cpu\<lparr>PC := 2\<rparr>) \<noteq> PC direct_address_cpu + 4"
  unfolding decode_eq
  by (simp add: direct_address_cpu_sel MOV_bytes mnemonics_index_MOV del: One_nat_def)

text \<open>
  Claim C5, amended. For every instruction whose addressing-mode byte has mode \<open>00\<close> and
  register/memory selector \<open>110\<close>, decoding reports mode \<open>00\<close> and selector \<open>110\<close> among its
  printed fields and returns the empty \<^verbatim>\<open>Instruction{}\<close> (which holds no operand: neither a
  direct address nor \<open>(BP)\<close>) with a \<^verbatim>\<open>nil\<close> error; it consumes the 2 base bytes only, the
  program counter ending at \<open>PC + 2\<close> and not at \<open>PC + 4\<close>.
\<close>

theorem C5_direct_address_base_bytes_only:
  assumes "unat (Memory c (unat (PC c + 1))) div 64 = 0"
    and "unat (Memory c (unat (PC c + 1))) mod 8 = 6"
  shows "\<exists>opcode d w reg.
     DecodeInatruction c =
       Return ([Printf_mnemonic (mnemonics_index opcode), Printf_fields opcode d w 0 reg 6],
               Instruction, None)
              (c\<lparr>PC := PC c + 2\<rparr>) \<and>
     PC (c\<lparr>PC := PC c + 2\<rparr>) \<noteq> PC c + 4"
proof -
  have "DecodeInatruction c =
     Return ([Printf_mnemonic (mnemonics_index (bit_field (Memory c (unat (PC c))) 2 6)),
              Printf_fields (bit_field (Memory c (unat (PC c))) 2 6)
                            (bit_field (Memory c (unat (PC c))) 1 1)
                            (bit_field (Memory c (unat (PC c))) 0 1)
                            0
                            (bit_field (Memory c (unat (PC c + 1))) 3 3)
                            6],
             Instruction, None)
            (c\<lparr>PC := PC c + 2\<rparr>)"
    using decode_eq [of c] mode_rm_fields [OF assms] by (simp only:)
  moreover have "PC (c\<lparr>PC := PC c + 2\<rparr>) \<noteq> PC c + 4"
    by simp
  ultimately show ?thesis
    by blast
qed

theorem C5_direct_address_base_bytes_only_witness:
  "unat (Memory direct_address_cpu (unat (PC direct_address_cpu + 1))) div 64 = 0 \<and>
   unat (Memory direct_address_cpu (unat (PC direct_address_cpu + 1))) mod 8 = 6 \<and>
   (\<exists>opcode d w reg.
     DecodeInatruction direct_address_cpu =
       Return ([Printf_mnemonic (mnemonics_index opcode), Printf_fields opcode d w 0 reg 6],
               Instruction, None)
              (direct_address_cpu\<lparr>PC := PC direct_address_cpu + 2\<rparr>) \<and>
     PC (direct_address_cpu\<lparr>PC := PC direct_address_cpu + 2\<rparr>) \<noteq> PC direct_address_cpu + 4)"
proof -
  have h1: "unat (Memory direct_address_cpu (unat (PC direct_address_cpu + 1))) div 64 = 0"
    and h2: "unat (Memory direct_address_cpu (unat (PC direct_address_cpu + 1))) mod 8 = 6"
    by (simp_all add: direct_address_cpu_sel)
  from h1 h2 C5_direct_address_base_bytes_only [OF h1 h2] show ?thesis
    by (intro conjI)
qed

subsection \<open>The register-to-register move \<open>88 C3\<close>\<close>

lemma mov_loaded_cpu_sel:
  "PC mov_loaded_cpu = 0"
  "Memory mov_loaded_cpu 0 = 0x88"
  "Memory mov_loaded_cpu 1 = 0xC3"
  by (simp_all add: mov_loaded_cpu_def NewCPU_def)

text \<open>Loading a file with the two bytes \<open>88 C3\<close> into the zero CPU gives this state.\<close>

lemma load_register_move:
  "LoadProgram (\<lambda>_. Contents [0x88, 0xC3]) NewCPU ''program.bin'' = Return None mov_loaded_cpu"
proof -
  have small: "0 < MEMSIZE" "Suc 0 < MEMSIZE"
    by (simp_all add: MEMSIZE_def)
  have "load_loop [0x88, 0xC3] 0 NewCPU =
      Inr (2, NewCPU\<lparr>Memory := (Memory NewCPU)(0 := 0x88, 1 := 0xC3)\<rparr>)"
    by (simp add: load_loop.simps [of "[0x88, 0xC3]"] small)
  then show ?thesis
    by (simp add: LoadProgram_def mov_loaded_cpu_def)
qed

lemma register_mode_byte:
  "bit_field 0xC3 6 2 = 3" "bit_field 0xC3 3 3 = 0" "bit_field 0xC3 0 3 = 3"
  unfolding word_unat_eq_iff unat_fields by simp_all

text \<open>
  The bytes \<open>88 C3\<close> decode to opcode-class \<open>100010\<close> (\<^verbatim>\<open>MOV\<close>), \<open>d = 0\<close>, \<open>w = 0\<close>, mode \<open>11\<close>,
  register \<open>000\<close>, register/memory \<open>011\<close>, with the program counter at 2.
\<close>

lemma decode_register_move:
  "DecodeInatruction mov_loaded_cpu =
     Return ([Printf_mnemonic ''MOV'', Printf_fields 34 0 0 3 0 3], Instruction, None)
            (mov_loaded_cpu\<lparr>PC := 2\<rparr>)"
  unfolding decode_eq
  by (simp add: mov_loaded_cpu_sel MOV_bytes register_mode_byte mnemonics_index_MOV
      del: One_nat_def)

subsection \<open>The run loop\<close>

lemma Run_never_returns: "Run c = None"
proof (cases "Run c")
  case None
  then show ?thesis .
next
  case (Some y)
  have False
  proof (rule Run.raw_induct [where P = "\<lambda>_ _. False"])
    fix loop :: "CPU \<Rightarrow> (error option \<times> CPU) option" and c' y'
    assume "\<And>x y. loop x = Some y \<Longrightarrow> False" and "loop c' = Some y'"
    then show False
      by blast
  next
    show "Run c = Some y"
      by fact
  qed
  then show ?thesis ..
qed

text \<open>
  Claim C6 as stated fails. On the zero CPU with the program \<open>88 C3\<close> loaded, \<^verbatim>\<open>Run\<close> does
  not return.
\<close>

theorem C6_run_counterexample: "Run mov_loaded_cpu = None"
  by (rule Run_never_returns)

text \<open>
  Claim C6, amended. For every CPU state, \<^verbatim>\<open>Run\<close> never returns to its caller: its loop
  has an empty body and no exit, so no terminal state (halt, unsupported opcode, out of
  bounds, ran off the end) is reached or reported.
\<close>

theorem C6_run_never_returns: "Run c = None"
  by (rule Run_never_returns)

end
